theory Spec2Isabelle
  imports Complex_Main
begin

section \<open>Numbers\<close>

text \<open>
  A JavaScript number is modelled as a real: rounding, overflow and the sign of zero are
  left out. \<open>null\<close> in a nullable field is \<open>None\<close>. The one place of the engine that
  divides without a guard (the \<open>'prm'\<close> case of \<open>getReward\<close>) can leave the reals, so the
  results of a division carry the IEEE special values: a nonzero number divided by zero is
  an infinity, zero divided by zero is \<open>NaN\<close>.
\<close>

datatype jsnum = Num real | PosInf | NegInf | NaN

text \<open>\<open>a / b\<close> of two finite numbers.\<close>

definition js_div :: "real \<Rightarrow> real \<Rightarrow> jsnum" where
  "js_div a b =
     (if b \<noteq> 0 then Num (a / b)
      else if a = 0 then NaN
      else if 0 < a then PosInf
      else NegInf)"

text \<open>\<open>Math.max(0, v)\<close>: \<open>NaN\<close> if an argument is \<open>NaN\<close>.\<close>

fun js_max0 :: "jsnum \<Rightarrow> jsnum" where
  "js_max0 (Num r) = Num (max 0 r)"
| "js_max0 PosInf = PosInf"
| "js_max0 NegInf = Num 0"
| "js_max0 NaN = NaN"

text \<open>\<open>c * v\<close> for a finite \<open>c\<close>: zero times an infinity is \<open>NaN\<close>.\<close>

fun js_scale :: "real \<Rightarrow> jsnum \<Rightarrow> jsnum" where
  "js_scale c (Num r) = Num (c * r)"
| "js_scale c PosInf = (if 0 < c then PosInf else if c < 0 then NegInf else NaN)"
| "js_scale c NegInf = (if 0 < c then NegInf else if c < 0 then PosInf else NaN)"
| "js_scale c NaN = NaN"

text \<open>\<open>e > v\<close> for a finite \<open>e\<close>: every comparison with \<open>NaN\<close> is false.\<close>

fun js_gt :: "real \<Rightarrow> jsnum \<Rightarrow> bool" where
  "js_gt e (Num r) = (r < e)"
| "js_gt e PosInf = False"
| "js_gt e NegInf = True"
| "js_gt e NaN = False"

section \<open>Data\<close>

text \<open>
  An object \<open>{x, y}\<close>: a position, a velocity or a direction. The fields are named
  \<open>xc\<close> and \<open>yc\<close>.
\<close>

record vec2 =
  xc :: real
  yc :: real

section \<open>rewards.js\<close>

definition calculateSparseReward :: "vec2 \<Rightarrow> vec2 \<Rightarrow> real \<Rightarrow> real" where
  "calculateSparseReward agentPos goalPos threshold =
     (let distance = sqrt ((xc agentPos - xc goalPos)\<^sup>2 + (yc agentPos - yc goalPos)\<^sup>2)
      in if distance < threshold then 1 else 0)"

definition calculateDistanceShapingReward ::
    "vec2 \<Rightarrow> vec2 \<Rightarrow> vec2 \<Rightarrow> real \<Rightarrow> real \<Rightarrow> real" where
  "calculateDistanceShapingReward currentPos nextPos goalPos gamma baseReward =
     (let phiCurrent = - sqrt ((xc currentPos - xc goalPos)\<^sup>2 + (yc currentPos - yc goalPos)\<^sup>2);
          phiNext = - sqrt ((xc nextPos - xc goalPos)\<^sup>2 + (yc nextPos - yc goalPos)\<^sup>2);
          shapingSignal = (gamma * phiNext) - phiCurrent
      in baseReward + shapingSignal)"

text \<open>
  \<open>initialDistance\<close> may be \<open>null\<close>. Past the guard the divisor is not zero, so the
  result is a real.
\<close>

definition calculatePRMReward :: "vec2 \<Rightarrow> vec2 \<Rightarrow> real option \<Rightarrow> real \<Rightarrow> real" where
  "calculatePRMReward currentPos goalPos initialDistance learningRate =
     (let distance = sqrt ((xc currentPos - xc goalPos)\<^sup>2 + (yc currentPos - yc goalPos)\<^sup>2)
      in case initialDistance of
           None \<Rightarrow> 0
         | Some i \<Rightarrow>
             if i = 0 then 0
             else (let progress = max 0 ((i - distance) / i)
                   in learningRate * progress))"

definition calculateSemanticReward :: "vec2 \<Rightarrow> vec2 \<Rightarrow> real \<Rightarrow> real \<Rightarrow> real" where
  "calculateSemanticReward agentPos goalPos w h =
     (let distance = sqrt ((xc agentPos - xc goalPos)\<^sup>2 + (yc agentPos - yc goalPos)\<^sup>2);
          sigma = 100
      in exp (- (distance\<^sup>2) / (2 * sigma\<^sup>2)))"

section \<open>The engine's data\<close>

text \<open>An entry of \<open>positionHistory\<close>: \<open>{ ...currentPos, time: Date.now() }\<close>.\<close>

record histEntry = vec2 +
  time :: real

text \<open>What the engine reads and writes of a Matter.js body.\<close>

record body =
  position :: vec2
  velocity :: vec2

text \<open>The fields of \<open>SimulationEngine\<close> (the later of the two versions of the class).\<close>

record SimulationEngine =
  width :: real
  height :: real
  agent :: body
  goal :: body
  agentVelocity :: vec2
  positionHistory :: "histEntry list"
  maxHistoryLength :: nat
  successThreshold :: real
  previousDistance :: "real option"
  initialDistance :: "real option"
  successCount :: int

text \<open>The result \<open>{ reward, isDone }\<close> of \<open>step\<close>.\<close>

record stepResult =
  reward :: jsnum
  isDone :: bool

text \<open>
  The Euclidean distance
  \<open>Math.sqrt(Math.pow(a.x - b.x, 2) + Math.pow(a.y - b.y, 2))\<close>,
  which every function of the source writes out in place; the definitions below
  write it out as the source does, and the statements name it.
\<close>

definition distance :: "vec2 \<Rightarrow> vec2 \<Rightarrow> real" where
  "distance a b = sqrt ((xc a - xc b)\<^sup>2 + (yc a - yc b)\<^sup>2)"

section \<open>SimulationEngine\<close>

text \<open>
  The constructor, as far as the fields above go: the agent at a quarter of the width,
  the goal at three quarters, both at half the height.
\<close>

definition newSimulationEngine :: "real \<Rightarrow> real \<Rightarrow> SimulationEngine" where
  "newSimulationEngine w h =
     \<lparr> width = w, height = h,
       agent = \<lparr> position = \<lparr> xc = w / 4, yc = h / 2 \<rparr>, velocity = \<lparr> xc = 0, yc = 0 \<rparr> \<rparr>,
       goal = \<lparr> position = \<lparr> xc = w * 0.75, yc = h / 2 \<rparr>, velocity = \<lparr> xc = 0, yc = 0 \<rparr> \<rparr>,
       agentVelocity = \<lparr> xc = 0, yc = 0 \<rparr>,
       positionHistory = [],
       maxHistoryLength = 10,
       successThreshold = 35,
       previousDistance = None,
       initialDistance = None,
       successCount = 0 \<rparr>"

definition getAgentPosition :: "SimulationEngine \<Rightarrow> vec2" where
  "getAgentPosition s = \<lparr> xc = xc (position (agent s)), yc = yc (position (agent s)) \<rparr>"

definition getGoalPosition :: "SimulationEngine \<Rightarrow> vec2" where
  "getGoalPosition s = \<lparr> xc = xc (position (goal s)), yc = yc (position (goal s)) \<rparr>"

definition getDistance :: "SimulationEngine \<Rightarrow> real" where
  "getDistance s =
     (let agentPos = getAgentPosition s;
          goalPos = getGoalPosition s
      in sqrt ((xc agentPos - xc goalPos)\<^sup>2 + (yc agentPos - yc goalPos)\<^sup>2))"

definition updateAgentVelocity :: "real \<Rightarrow> real \<Rightarrow> SimulationEngine \<Rightarrow> SimulationEngine" where
  "updateAgentVelocity vx vy s = s \<lparr> agentVelocity := \<lparr> xc = vx, yc = vy \<rparr> \<rparr>"

definition isSuccess :: "SimulationEngine \<Rightarrow> bool" where
  "isSuccess s = (getDistance s < successThreshold s)"

text \<open>
  \<open>Body.setPosition\<close> and \<open>Body.setVelocity\<close> on the agent, then the engine's own
  fields. \<open>successCount\<close> is not touched.
\<close>

definition reset :: "SimulationEngine \<Rightarrow> SimulationEngine" where
  "reset s =
     s \<lparr> agent := \<lparr> position = \<lparr> xc = width s / 4, yc = height s / 2 \<rparr>,
                    velocity = \<lparr> xc = 0, yc = 0 \<rparr> \<rparr>,
         agentVelocity := \<lparr> xc = 0, yc = 0 \<rparr>,
         positionHistory := [],
         previousDistance := None,
         initialDistance := None \<rparr>"

text \<open>
  \<open>getReward\<close> writes \<open>initialDistance\<close> (when it is \<open>null\<close>) and \<open>previousDistance\<close>
  before the \<open>switch\<close>, and returns the reward of the regime named by the string
  \<open>ty\<close>. In the \<open>'prm'\<close> case the division has no guard; a \<open>null\<close> there would count
  as \<open>0\<close>, but the field has just been set.
\<close>

definition getReward ::
    "string \<Rightarrow> real \<Rightarrow> real \<Rightarrow> real \<Rightarrow> real \<Rightarrow> SimulationEngine \<Rightarrow> SimulationEngine \<times> jsnum" where
  "getReward ty gamma learningRate w h s =
     (let dist = getDistance s;
          prevDist = (case previousDistance s of Some p \<Rightarrow> p | None \<Rightarrow> dist);
          s1 = (if initialDistance s = None then s \<lparr> initialDistance := Some dist \<rparr> else s);
          s2 = s1 \<lparr> previousDistance := Some dist \<rparr>
      in (s2,
          if ty = ''sparse'' then Num (if dist < successThreshold s2 then 1 else 0)
          else if ty = ''shaping'' then
            (let phiNext = - dist;
                 phiCurr = - prevDist
             in Num ((gamma * phiNext) - phiCurr))
          else if ty = ''prm'' then
            (let initialDist = (case initialDistance s2 of Some i \<Rightarrow> i | None \<Rightarrow> 0);
                 progress = js_max0 (js_div (initialDist - dist) initialDist)
             in js_scale learningRate progress)
          else if ty = ''semantic'' then
            (let sigma = 100
             in Num (exp (- (dist\<^sup>2) / (2 * sigma\<^sup>2))))
          else Num 0))"

text \<open>
  \<open>step\<close>. The physics engine is outside the repository: \<open>engineUpdate\<close> stands for
  \<open>Engine.update(this.engine, 1000 / 60)\<close> on the agent's body (the goal is static), and
  \<open>now\<close> for \<open>Date.now()\<close>.
\<close>

definition step ::
    "(body \<Rightarrow> body) \<Rightarrow> real \<Rightarrow> string \<Rightarrow> real \<Rightarrow> real \<Rightarrow> real \<Rightarrow> real \<Rightarrow>
     SimulationEngine \<Rightarrow> SimulationEngine \<times> stepResult" where
  "step engineUpdate now rewardType gamma learningRate w h s =
     (case getReward rewardType gamma learningRate w h s of
        (s1, rew) \<Rightarrow>
          if isSuccess s1 then
            (reset (s1 \<lparr> successCount := successCount s1 + 1 \<rparr>),
             \<lparr> reward = Num 1, isDone = True \<rparr>)
          else
            (let s2 = s1 \<lparr> agent := (agent s1) \<lparr> velocity := agentVelocity s1 \<rparr> \<rparr>;
                 s3 = s2 \<lparr> agent := engineUpdate (agent s2) \<rparr>;
                 currentPos = getAgentPosition s3;
                 s4 = s3 \<lparr> positionHistory := positionHistory s3 @
                        [\<lparr> xc = xc currentPos, yc = yc currentPos, time = now \<rparr>] \<rparr>;
                 s5 = (if length (positionHistory s4) > maxHistoryLength s4
                       then s4 \<lparr> positionHistory := tl (positionHistory s4) \<rparr>
                       else s4)
             in (s5, \<lparr> reward = rew, isDone = False \<rparr>)))"

section \<open>The reward-guided policy\<close>

text \<open>
  \<open>updateAgent\<close> of the later \<open>SimulationCanvas\<close>. The component's properties
  \<open>rewardType\<close>, \<open>width\<close>, \<open>height\<close>, \<open>gamma\<close> and \<open>learningRate\<close> are parameters;
  the policy's state is the engine and \<open>momentumRef.current\<close>.
\<close>

definition samples :: "(real \<times> real) list" where
  "samples =
     (let sampleDistance = 10
      in [(sampleDistance, 0),
          (- sampleDistance, 0),
          (0, sampleDistance),
          (0, - sampleDistance),
          (sampleDistance * 0.707, sampleDistance * 0.707),
          (- sampleDistance * 0.707, sampleDistance * 0.707),
          (sampleDistance * 0.707, - sampleDistance * 0.707),
          (- sampleDistance * 0.707, - sampleDistance * 0.707)])"

text \<open>
  The body of \<open>samples.forEach\<close>: the pair is \<open>bestDirection\<close> and
  \<open>maxExpectedReward\<close>. \<open>sim.initialDistance || distance\<close> takes \<open>distance\<close> when the
  field is \<open>null\<close> or \<open>0\<close>.
\<close>

definition sampleStep ::
    "string \<Rightarrow> real \<Rightarrow> real \<Rightarrow> real \<Rightarrow> real \<Rightarrow> SimulationEngine \<Rightarrow>
     real \<times> real \<Rightarrow> vec2 \<times> jsnum \<Rightarrow> vec2 \<times> jsnum" where
  "sampleStep rewardType w h gamma learningRate sim sample acc =
     (case sample of (dx, dy) \<Rightarrow>
      case acc of (bestDirection, maxExpectedReward) \<Rightarrow>
        (let agentPos = getAgentPosition sim;
             goalPos = getGoalPosition sim;
             distance = getDistance sim;
             testPos0 = \<lparr> xc = xc agentPos + dx, yc = yc agentPos + dy \<rparr>;
             testPos = \<lparr> xc = max 15 (min (w - 15) (xc testPos0)),
                         yc = max 15 (min (h - 15) (yc testPos0)) \<rparr>;
             testDistance = sqrt ((xc testPos - xc goalPos)\<^sup>2 + (yc testPos - yc goalPos)\<^sup>2);
             expectedReward =
               (if rewardType = ''sparse'' then
                  calculateSparseReward testPos goalPos (successThreshold sim)
                else if rewardType = ''shaping'' then
                  (let phiCurrent = - distance;
                       phiNext = - testDistance
                   in (gamma * phiNext) - phiCurrent)
                else if rewardType = ''prm'' then
                  (let initialDist =
                         (case initialDistance sim of
                            None \<Rightarrow> distance
                          | Some i \<Rightarrow> if i = 0 then distance else i)
                   in calculatePRMReward testPos goalPos (Some initialDist) learningRate)
                else if rewardType = ''semantic'' then
                  calculateSemanticReward testPos goalPos w h
                else 0)
         in if js_gt expectedReward maxExpectedReward
            then (\<lparr> xc = dx, yc = dy \<rparr>, Num expectedReward)
            else (bestDirection, maxExpectedReward)))"

text \<open>
  The sampling loop, then the normalisation of \<open>bestDirection\<close> or, when no sample
  beat the current reward, the direction of the goal.
\<close>

definition chooseDirection ::
    "string \<Rightarrow> real \<Rightarrow> real \<Rightarrow> real \<Rightarrow> real \<Rightarrow> jsnum \<Rightarrow> SimulationEngine \<Rightarrow> vec2" where
  "chooseDirection rewardType w h gamma learningRate currentReward sim =
     (let agentPos = getAgentPosition sim;
          goalPos = getGoalPosition sim;
          bestDirection =
            fst (fold (sampleStep rewardType w h gamma learningRate sim) samples
                   (\<lparr> xc = 0, yc = 0 \<rparr>, currentReward));
          dirLength = sqrt (xc bestDirection * xc bestDirection + yc bestDirection * yc bestDirection)
      in if dirLength > 0 then
           \<lparr> xc = xc bestDirection / dirLength, yc = yc bestDirection / dirLength \<rparr>
         else
           (let dx = xc goalPos - xc agentPos;
                dy = yc goalPos - yc agentPos;
                dist = sqrt (dx * dx + dy * dy)
            in if dist > 0 then \<lparr> xc = dx / dist, yc = dy / dist \<rparr> else bestDirection))"

definition updateAgent ::
    "string \<Rightarrow> real \<Rightarrow> real \<Rightarrow> real \<Rightarrow> real \<Rightarrow> jsnum \<Rightarrow>
     SimulationEngine \<times> vec2 \<Rightarrow> SimulationEngine \<times> vec2" where
  "updateAgent rewardType w h gamma learningRate currentReward st =
     (case st of (sim, momentum) \<Rightarrow>
        (let distance = getDistance sim
         in if distance \<le> successThreshold sim then
              (updateAgentVelocity 0 0 sim, \<lparr> xc = 0, yc = 0 \<rparr>)
            else
              (let bestDirection = chooseDirection rewardType w h gamma learningRate currentReward sim;
                   momentumDecay = 0.7;
                   momentumWeight = 0.3;
                   momentum1 =
                     \<lparr> xc = xc momentum * momentumDecay + xc bestDirection * (1 - momentumDecay),
                       yc = yc momentum * momentumDecay + yc bestDirection * (1 - momentumDecay) \<rparr>;
                   momLength = sqrt (xc momentum1 * xc momentum1 + yc momentum1 * yc momentum1);
                   momentum2 =
                     (if momLength > 0
                      then \<lparr> xc = xc momentum1 / momLength, yc = yc momentum1 / momLength \<rparr>
                      else momentum1);
                   finalDirection0 =
                     \<lparr> xc = xc bestDirection * (1 - momentumWeight) + xc momentum2 * momentumWeight,
                       yc = yc bestDirection * (1 - momentumWeight) + yc momentum2 * momentumWeight \<rparr>;
                   finalLength = sqrt (xc finalDirection0 * xc finalDirection0 +
                                       yc finalDirection0 * yc finalDirection0);
                   finalDirection =
                     (if finalLength > 0
                      then \<lparr> xc = xc finalDirection0 / finalLength, yc = yc finalDirection0 / finalLength \<rparr>
                      else finalDirection0);
                   baseSpeed = min 4 (max 1.5 (distance * 0.015));
                   vx = xc finalDirection * baseSpeed;
                   vy = yc finalDirection * baseSpeed
               in (updateAgentVelocity vx vy sim, momentum2))))"

text \<open>
  One pass of the loop in \<open>animate\<close>: the reward of the current state, the policy, the
  step, and the momentum set to zero after a success. The display state and the reward
  history play no part in the engine and are left out.
\<close>

definition animateTick ::
    "(body \<Rightarrow> body) \<Rightarrow> real \<Rightarrow> string \<Rightarrow> real \<Rightarrow> real \<Rightarrow> real \<Rightarrow> real \<Rightarrow>
     SimulationEngine \<times> vec2 \<Rightarrow> (SimulationEngine \<times> vec2) \<times> stepResult" where
  "animateTick engineUpdate now rewardType w h gamma learningRate st =
     (case st of (sim, momentum) \<Rightarrow>
      case getReward rewardType gamma learningRate w h sim of (sim1, currentReward) \<Rightarrow>
      case updateAgent rewardType w h gamma learningRate currentReward (sim1, momentum) of
        (sim2, momentum1) \<Rightarrow>
      case step engineUpdate now rewardType gamma learningRate w h sim2 of (sim3, stepResult) \<Rightarrow>
        if isDone stepResult
        then ((sim3, \<lparr> xc = 0, yc = 0 \<rparr>), stepResult)
        else ((sim3, momentum1), stepResult))"

section \<open>An invariant of the engine\<close>

text \<open>
  The engine was built for a width other than \<open>0\<close>, its goal is where the constructor
  put it, and \<open>initialDistance\<close> is either \<open>null\<close> with the agent on the spawn point
  or half the width, which is the distance from the spawn point to the goal.
\<close>

definition spawnInvariant :: "SimulationEngine \<Rightarrow> bool" where
  "spawnInvariant s =
     (width s \<noteq> 0
      \<and> position (goal s) = \<lparr> xc = width s * 0.75, yc = height s / 2 \<rparr>
      \<and> (case initialDistance s of
            None \<Rightarrow> position (agent s) = \<lparr> xc = width s / 4, yc = height s / 2 \<rparr>
          | Some i \<Rightarrow> i = \<bar>width s\<bar> / 2))"

section \<open>Concrete inputs\<close>

text \<open>
  A stand-in for the physics engine, used only to evaluate \<open>step\<close> at concrete inputs:
  the body moves by its velocity. And the engine of a 400 by 300 canvas (goal at
  \<open>(300, 150)\<close>, threshold \<open>35\<close>) with the agent placed at a given point.
\<close>

definition kinematicUpdate :: "body \<Rightarrow> body" where
  "kinematicUpdate b =
     b \<lparr> position := \<lparr> xc = xc (position b) + xc (velocity b),
                        yc = yc (position b) + yc (velocity b) \<rparr> \<rparr>"

definition agentAt :: "real \<Rightarrow> real \<Rightarrow> SimulationEngine" where
  "agentAt ax ay =
     (newSimulationEngine 400 300)
       \<lparr> agent := \<lparr> position = \<lparr> xc = ax, yc = ay \<rparr>, velocity = \<lparr> xc = 0, yc = 0 \<rparr> \<rparr> \<rparr>"

section \<open>Distances\<close>

lemma distance_nonneg: "0 \<le> distance a b"
  by (simp add: distance_def)

lemma getDistance_distance: "getDistance s = distance (getAgentPosition s) (getGoalPosition s)"
  by (simp add: getDistance_def distance_def Let_def)


lemma distance_eq_0_iff: "distance a b = 0 \<longleftrightarrow> xc a = xc b \<and> yc a = yc b"
  by (simp add: distance_def)

lemma sqrt_400: "sqrt 400 = 20"
  by (rule real_sqrt_unique) simp_all

lemma sqrt_1225: "sqrt 1225 = 35"
  by (rule real_sqrt_unique) simp_all

lemma sqrt_10000: "sqrt 10000 = 100"
  by (rule real_sqrt_unique) simp_all

lemma sqrt_40000: "sqrt 40000 = 200"
  by (rule real_sqrt_unique) simp_all

lemma getDistance_agentAt: "getDistance (agentAt ax 150) = \<bar>ax - 300\<bar>"
  by (simp add: getDistance_def getAgentPosition_def getGoalPosition_def agentAt_def
      newSimulationEngine_def Let_def)

lemma threshold_agentAt: "successThreshold (agentAt ax ay) = 35"
  by (simp add: agentAt_def newSimulationEngine_def)

section \<open>The sparse reward\<close>

text \<open>
  C6. The sparse reward is \<open>1\<close> when the distance is below the threshold and \<open>0\<close>
  otherwise: it is \<open>0\<close> at a distance equal to the threshold and has no other value
  than \<open>0\<close> and \<open>1\<close>. The engine's \<open>'sparse'\<close> case is the same test against
  \<open>successThreshold\<close>. Agent \<open>(100, 150)\<close>, goal \<open>(300, 150)\<close>, threshold \<open>35\<close>
  gives \<open>0\<close>; agent \<open>(280, 150)\<close> gives \<open>1\<close>.
\<close>

theorem sparse_reward_threshold:
  "calculateSparseReward agentPos goalPos theta =
     (if distance agentPos goalPos < theta then 1 else 0)
   \<and> calculateSparseReward agentPos goalPos (distance agentPos goalPos) = 0
   \<and> calculateSparseReward agentPos goalPos theta \<in> {0, 1}
   \<and> snd (getReward ''sparse'' gamma learningRate w h s) =
       Num (if getDistance s < successThreshold s then 1 else 0)
   \<and> calculateSparseReward \<lparr> xc = 100, yc = 150 \<rparr> \<lparr> xc = 300, yc = 150 \<rparr> 35 = 0
   \<and> calculateSparseReward \<lparr> xc = 280, yc = 150 \<rparr> \<lparr> xc = 300, yc = 150 \<rparr> 35 = 1"
proof -
  have gen: "calculateSparseReward a g t = (if distance a g < t then 1 else 0)" for a g t
    by (simp add: calculateSparseReward_def distance_def Let_def)
  have eng: "snd (getReward ''sparse'' gamma learningRate w h s) =
       Num (if getDistance s < successThreshold s then 1 else 0)"
    by (simp add: getReward_def Let_def)
  have far: "distance \<lparr> xc = 100, yc = 150 \<rparr> \<lparr> xc = 300, yc = 150 \<rparr> = 200"
    by (simp add: distance_def sqrt_40000)
  have near: "distance \<lparr> xc = 280, yc = 150 \<rparr> \<lparr> xc = 300, yc = 150 \<rparr> = 20"
    by (simp add: distance_def sqrt_400)
  show ?thesis
    using eng by (simp add: gen far near)
qed

section \<open>The shaping reward\<close>

text \<open>
  C2. Along a trajectory \<open>s0, s1, ..., sn\<close> (the list \<open>s0 # ss\<close>) and a fixed goal, the
  shaping rewards of the consecutive pairs with \<open>gamma = 1\<close> and \<open>baseReward = 0\<close> add
  up to \<open>distance(s0, g) - distance(sn, g)\<close>, which is \<open>Phi(sn) - Phi(s0)\<close> for the
  potential \<open>Phi(s) = - distance(s, g)\<close>.
\<close>

theorem shaping_telescopes:
  "sum_list (map (\<lambda>(a, b). calculateDistanceShapingReward a b g 1 0) (zip (s0 # ss) ss)) =
     distance s0 g - distance (last (s0 # ss)) g
   \<and> distance s0 g - distance (last (s0 # ss)) g =
     (- distance (last (s0 # ss)) g) - (- distance s0 g)"
proof -
  have pair: "calculateDistanceShapingReward a b g 1 0 = distance a g - distance b g" for a b
    by (simp add: calculateDistanceShapingReward_def distance_def Let_def)
  have "sum_list (map (\<lambda>(a, b). calculateDistanceShapingReward a b g 1 0) (zip (s0 # ss) ss)) =
     distance s0 g - distance (last (s0 # ss)) g"
  proof (induction ss arbitrary: s0)
    case Nil
    show ?case by simp
  next
    case (Cons s1 rest)
    from Cons.IH [of s1] show ?case by (simp add: pair)
  qed
  then show ?thesis by simp
qed

text \<open>
  C10. When \<open>previousDistance\<close> is \<open>null\<close>, as it is after the constructor and after
  \<open>reset\<close>, the \<open>'shaping'\<close> case takes the current distance \<open>d\<close> for the previous one,
  and the reward is \<open>(1 - gamma) * d\<close>: positive for \<open>gamma < 1\<close> and \<open>d > 0\<close>, and
  larger at a larger distance.
\<close>

theorem shaping_first_evaluation:
  assumes "previousDistance s = None" and "previousDistance s' = None"
  shows "(\<exists>r r'. snd (getReward ''shaping'' gamma learningRate w h s) = Num r
           \<and> snd (getReward ''shaping'' gamma learningRate w h s') = Num r'
           \<and> r = (1 - gamma) * getDistance s
           \<and> r' = (1 - gamma) * getDistance s'
           \<and> (gamma < 1 \<and> 0 < getDistance s \<longrightarrow> 0 < r)
           \<and> (gamma < 1 \<and> getDistance s < getDistance s' \<longrightarrow> r < r'))
     \<and> previousDistance (reset s0) = None
     \<and> previousDistance (newSimulationEngine w0 h0) = None"
proof -
  have r: "snd (getReward ''shaping'' gamma learningRate w h t) = Num ((1 - gamma) * getDistance t)"
    if "previousDistance t = None" for t
    using that by (simp add: getReward_def Let_def algebra_simps)
  have "\<exists>r r'. snd (getReward ''shaping'' gamma learningRate w h s) = Num r
           \<and> snd (getReward ''shaping'' gamma learningRate w h s') = Num r'
           \<and> r = (1 - gamma) * getDistance s
           \<and> r' = (1 - gamma) * getDistance s'
           \<and> (gamma < 1 \<and> 0 < getDistance s \<longrightarrow> 0 < r)
           \<and> (gamma < 1 \<and> getDistance s < getDistance s' \<longrightarrow> r < r')"
    using r [OF assms(1)] r [OF assms(2)] by simp
  moreover have "previousDistance (reset s0) = None"
    by (simp add: reset_def)
  moreover have "previousDistance (newSimulationEngine w0 h0) = None"
    by (simp add: newSimulationEngine_def)
  ultimately show ?thesis by simp
qed

theorem shaping_first_evaluation_witness:
  "previousDistance (agentAt 100 150) = None
   \<and> previousDistance (reset (agentAt 200 150)) = None
   \<and> snd (getReward ''shaping'' 0.9 0.1 400 300 (agentAt 100 150)) = Num 20
   \<and> snd (getReward ''shaping'' 0.9 0.1 400 300 (reset (agentAt 200 150))) = Num 20
   \<and> snd (getReward ''shaping'' 0.9 0.1 400 300 (agentAt 200 150)) = Num 10
   \<and> (0.9::real) < 1
   \<and> getDistance (agentAt 200 150) < getDistance (agentAt 100 150)"
proof -
  have p1: "previousDistance (agentAt 100 150) = None"
    by (simp add: agentAt_def newSimulationEngine_def)
  have p2: "previousDistance (agentAt 200 150) = None"
    by (simp add: agentAt_def newSimulationEngine_def)
  have rs: "reset (agentAt 200 150) = agentAt 100 150"
    by (simp add: reset_def agentAt_def newSimulationEngine_def)
  show ?thesis
    using p1 shaping_first_evaluation [OF p2 p1, of "0.9" "0.1" 400 300]
    by (auto simp: rs getDistance_agentAt)
qed

section \<open>The semantic reward\<close>

lemma semantic_eq: "calculateSemanticReward a g w h = exp (- (distance a g)\<^sup>2 / (2 * 100\<^sup>2))"
  by (simp only: calculateSemanticReward_def distance_def Let_def)

lemma semantic_decreasing:
  assumes "distance a g < distance a' g'"
  shows "calculateSemanticReward a' g' w' h' < calculateSemanticReward a g w h"
proof -
  have "(distance a g)\<^sup>2 < (distance a' g')\<^sup>2"
    using assms distance_nonneg [of a g] by (simp add: power_strict_mono)
  then show ?thesis
    by (simp add: semantic_eq divide_strict_right_mono)
qed

text \<open>
  C7. The semantic reward is \<open>exp (- distance\<^sup>2 / (2 * 100\<^sup>2))\<close>, in
  \<open>calculateSemanticReward\<close> and in the engine's \<open>'semantic'\<close> case. It is positive and
  at most \<open>1\<close>, it is \<open>1\<close> exactly when agent and goal coincide, a larger distance
  gives a smaller reward, and at distance \<open>100\<close> it is \<open>exp (- 1/2)\<close>.
\<close>

theorem semantic_reward_gaussian:
  fixes a g a' g' :: vec2
  shows "calculateSemanticReward a g w h = exp (- (distance a g)\<^sup>2 / (2 * 100\<^sup>2))
   \<and> snd (getReward ''semantic'' gamma learningRate w h s) =
       Num (exp (- (getDistance s)\<^sup>2 / (2 * 100\<^sup>2)))
   \<and> 0 < calculateSemanticReward a g w h
   \<and> calculateSemanticReward a g w h \<le> 1
   \<and> (calculateSemanticReward a g w h = 1 \<longleftrightarrow> a = g)
   \<and> (distance a g < distance a' g' \<longrightarrow>
        calculateSemanticReward a' g' w' h' < calculateSemanticReward a g w h)
   \<and> (distance a g = 100 \<longrightarrow> calculateSemanticReward a g w h = exp (- (1 / 2)))"
proof -
  have eng: "snd (getReward ''semantic'' gamma learningRate w h s) =
       Num (exp (- (getDistance s)\<^sup>2 / (2 * 100\<^sup>2)))"
    by (simp add: getReward_def Let_def)
  have pos: "0 < calculateSemanticReward a g w h"
    by (simp add: semantic_eq)
  have le: "calculateSemanticReward a g w h \<le> 1"
    by (simp add: semantic_eq)
  have "calculateSemanticReward a g w h = 1 \<longleftrightarrow> distance a g = 0"
    by (simp add: semantic_eq)
  also have "\<dots> \<longleftrightarrow> a = g"
    by (auto simp: distance_eq_0_iff)
  finally have one: "calculateSemanticReward a g w h = 1 \<longleftrightarrow> a = g" .
  have at100: "distance a g = 100 \<longrightarrow> calculateSemanticReward a g w h = exp (- (1 / 2))"
    by (simp add: semantic_eq)
  show ?thesis
    using eng pos le one at100 semantic_decreasing [of a g a' g' w' h' w h]
    by (simp add: semantic_eq)
qed

theorem semantic_reward_gaussian_witness:
  "distance \<lparr>xc = 300, yc = 150\<rparr> \<lparr>xc = 300, yc = 150\<rparr>
     < distance \<lparr>xc = 200, yc = 150\<rparr> \<lparr>xc = 300, yc = 150\<rparr>
   \<and> calculateSemanticReward \<lparr>xc = 200, yc = 150\<rparr> \<lparr>xc = 300, yc = 150\<rparr> 400 300
       < calculateSemanticReward \<lparr>xc = 300, yc = 150\<rparr> \<lparr>xc = 300, yc = 150\<rparr> 400 300
   \<and> distance \<lparr>xc = 200, yc = 150\<rparr> \<lparr>xc = 300, yc = 150\<rparr> = 100
   \<and> calculateSemanticReward \<lparr>xc = 200, yc = 150\<rparr> \<lparr>xc = 300, yc = 150\<rparr> 400 300 = exp (- (1 / 2))"
proof -
  have d0: "distance \<lparr>xc = 300, yc = 150\<rparr> \<lparr>xc = 300, yc = 150\<rparr> = 0"
    by (simp add: distance_def)
  have d1: "distance \<lparr>xc = 200, yc = 150\<rparr> \<lparr>xc = 300, yc = 150\<rparr> = 100"
    by (simp add: distance_def sqrt_10000)
  show ?thesis
    using semantic_reward_gaussian [of "\<lparr>xc = 300, yc = 150\<rparr>" "\<lparr>xc = 300, yc = 150\<rparr>" 400 300
        0 0 "newSimulationEngine 400 300" "\<lparr>xc = 200, yc = 150\<rparr>" "\<lparr>xc = 300, yc = 150\<rparr>" 400 300]
      semantic_reward_gaussian [of "\<lparr>xc = 200, yc = 150\<rparr>" "\<lparr>xc = 300, yc = 150\<rparr>" 400 300
        0 0 "newSimulationEngine 400 300" "\<lparr>xc = 200, yc = 150\<rparr>" "\<lparr>xc = 300, yc = 150\<rparr>" 400 300]
    by (simp add: d0 d1)
qed

section \<open>The success transition\<close>

text \<open>
  C1. When the distance is below \<open>successThreshold\<close> at the start of \<open>step\<close>, the step
  adds one to \<open>successCount\<close>, puts the agent back at the spawn point of the constructor
  with velocity zero, empties \<open>positionHistory\<close>, sets \<open>initialDistance\<close> and
  \<open>previousDistance\<close> to \<open>null\<close>, and returns reward \<open>1\<close> with \<open>isDone\<close> true. Neither
  the result nor the new state depends on the regime, \<open>gamma\<close> or \<open>learningRate\<close>.
\<close>

theorem step_success_resets:
  assumes "getDistance s < successThreshold s"
  shows "step engineUpdate now rewardType gamma learningRate w h s =
     (s \<lparr> agent := \<lparr> position = \<lparr> xc = width s / 4, yc = height s / 2 \<rparr>,
                    velocity = \<lparr> xc = 0, yc = 0 \<rparr> \<rparr>,
          agentVelocity := \<lparr> xc = 0, yc = 0 \<rparr>,
          positionHistory := [],
          previousDistance := None,
          initialDistance := None,
          successCount := successCount s + 1 \<rparr>,
      \<lparr> reward = Num 1, isDone = True \<rparr>)
   \<and> getAgentPosition (fst (step engineUpdate now rewardType gamma learningRate w h s)) =
       getAgentPosition (newSimulationEngine (width s) (height s))"
  using assms
  by (simp add: step_def getReward_def isSuccess_def getDistance_def getAgentPosition_def
      getGoalPosition_def reset_def newSimulationEngine_def Let_def)

theorem step_success_resets_witness:
  "getDistance (agentAt 280 150) < successThreshold (agentAt 280 150)
   \<and> snd (step kinematicUpdate 0 ''shaping'' 0.9 0.1 400 300 (agentAt 280 150)) =
       \<lparr> reward = Num 1, isDone = True \<rparr>
   \<and> successCount (fst (step kinematicUpdate 0 ''shaping'' 0.9 0.1 400 300 (agentAt 280 150))) = 1
   \<and> getAgentPosition (fst (step kinematicUpdate 0 ''shaping'' 0.9 0.1 400 300 (agentAt 280 150))) =
       \<lparr> xc = 100, yc = 150 \<rparr>
   \<and> previousDistance (fst (step kinematicUpdate 0 ''shaping'' 0.9 0.1 400 300 (agentAt 280 150))) = None"
proof -
  have lt: "getDistance (agentAt 280 150) < successThreshold (agentAt 280 150)"
    by (simp add: getDistance_agentAt threshold_agentAt)
  show ?thesis
    using lt step_success_resets [OF lt, of kinematicUpdate 0 "''shaping''" "0.9" "0.1" 400 300]
    by (simp add: agentAt_def newSimulationEngine_def getAgentPosition_def)
qed

section \<open>The policy\<close>

lemma normalize_unit:
  fixes u v :: real
  assumes "0 < sqrt (u * u + v * v)"
  shows "(u / sqrt (u * u + v * v)) * (u / sqrt (u * u + v * v)) +
         (v / sqrt (u * u + v * v)) * (v / sqrt (u * u + v * v)) = 1"
proof -
  define l where "l = sqrt (u * u + v * v)"
  have nn: "0 \<le> u * u + v * v" by simp
  have sq: "l * l = u * u + v * v"
    unfolding l_def using nn by simp
  have "0 < l" using assms by (simp only: l_def)
  then have "l \<noteq> 0" by simp
  then have "(u / l) * (u / l) + (v / l) * (v / l) = (u * u + v * v) / (l * l)"
    by (simp add: field_simps)
  also have "\<dots> = (l * l) / (l * l)" by (simp only: sq)
  also have "\<dots> = 1" using \<open>l \<noteq> 0\<close> by simp
  finally show ?thesis by (simp add: l_def)
qed

lemma fallback_length:
  "sqrt ((xc g - xc a) * (xc g - xc a) + (yc g - yc a) * (yc g - yc a)) = distance a g"
  by (simp add: distance_def power2_eq_square algebra_simps)

lemma chooseDirection_unit:
  assumes "0 < getDistance sim"
  shows "xc (chooseDirection rewardType w h gamma learningRate currentReward sim) *
         xc (chooseDirection rewardType w h gamma learningRate currentReward sim) +
         yc (chooseDirection rewardType w h gamma learningRate currentReward sim) *
         yc (chooseDirection rewardType w h gamma learningRate currentReward sim) = 1"
proof -
  define b where "b = fst (fold (sampleStep rewardType w h gamma learningRate sim) samples
                   (\<lparr> xc = 0, yc = 0 \<rparr>, currentReward))"
  define gx where "gx = xc (getGoalPosition sim) - xc (getAgentPosition sim)"
  define gy where "gy = yc (getGoalPosition sim) - yc (getAgentPosition sim)"
  have gl: "0 < sqrt (gx * gx + gy * gy)"
    using assms unfolding gx_def gy_def fallback_length getDistance_distance .
  show ?thesis
  proof (cases "0 < sqrt (xc b * xc b + yc b * yc b)")
    case True
    then have "chooseDirection rewardType w h gamma learningRate currentReward sim =
        \<lparr> xc = xc b / sqrt (xc b * xc b + yc b * yc b),
          yc = yc b / sqrt (xc b * xc b + yc b * yc b) \<rparr>"
      by (simp add: chooseDirection_def Let_def b_def)
    then show ?thesis using normalize_unit [OF True] by simp
  next
    case False
    then have "chooseDirection rewardType w h gamma learningRate currentReward sim =
        \<lparr> xc = gx / sqrt (gx * gx + gy * gy), yc = gy / sqrt (gx * gx + gy * gy) \<rparr>"
      using gl by (simp add: chooseDirection_def Let_def b_def gx_def gy_def)
    then show ?thesis using normalize_unit [OF gl] by simp
  qed
qed

lemma blend_nonzero:
  fixes bx "by" mx my :: real
  assumes b: "bx * bx + by * by = 1" and m: "mx * mx + my * my \<le> 1"
  shows "0 < sqrt ((bx * (1 - 0.3) + mx * 0.3) * (bx * (1 - 0.3) + mx * 0.3) +
                   (by * (1 - 0.3) + my * 0.3) * (by * (1 - 0.3) + my * 0.3))"
proof -
  define fx where "fx = bx * (1 - 0.3) + mx * 0.3"
  define fy where "fy = by * (1 - 0.3) + my * 0.3"
  have "fx * fx + fy * fy \<noteq> 0"
  proof
    assume "fx * fx + fy * fy = 0"
    then have "fx = 0" and "fy = 0"
      by (simp_all add: sum_squares_eq_zero_iff)
    then have "bx = - (3 / 7) * mx" and "by = - (3 / 7) * my"
      by (simp_all add: fx_def fy_def)
    then have "bx * bx + by * by = (9 / 49) * (mx * mx + my * my)"
      by (simp add: algebra_simps)
    with b m show False by simp
  qed
  moreover have "0 \<le> fx * fx + fy * fy"
    by simp
  ultimately have "0 < fx * fx + fy * fy"
    by linarith
  then have "0 < sqrt (fx * fx + fy * fy)"
    by (rule real_sqrt_gt_zero)
  then show ?thesis by (simp only: fx_def fy_def)
qed

lemma updateAgent_moving:
  assumes far: "successThreshold sim < getDistance sim" and th: "0 \<le> successThreshold sim"
  shows "\<exists>fx fy. fx * fx + fy * fy = 1
           \<and> agentVelocity (fst (updateAgent rewardType w h gamma learningRate currentReward
                 (sim, momentum))) =
               \<lparr> xc = fx * min 4 (max 1.5 (getDistance sim * 0.015)),
                 yc = fy * min 4 (max 1.5 (getDistance sim * 0.015)) \<rparr>"
proof -
  define b where "b = chooseDirection rewardType w h gamma learningRate currentReward sim"
  have "0 < getDistance sim" using far th by simp
  then have bu: "xc b * xc b + yc b * yc b = 1"
    unfolding b_def by (rule chooseDirection_unit)
  define m1 where "m1 = \<lparr> xc = xc momentum * 0.7 + xc b * (1 - 0.7),
                           yc = yc momentum * 0.7 + yc b * (1 - 0.7) \<rparr>"
  define ml where "ml = sqrt (xc m1 * xc m1 + yc m1 * yc m1)"
  define m2 where "m2 = (if ml > 0 then \<lparr> xc = xc m1 / ml, yc = yc m1 / ml \<rparr> else m1)"
  have m2: "xc m2 * xc m2 + yc m2 * yc m2 \<le> 1"
  proof (cases "0 < ml")
    case True
    then show ?thesis
      using normalize_unit [of "xc m1" "yc m1"] by (simp add: m2_def ml_def)
  next
    case False
    then have "sqrt (xc m1 * xc m1 + yc m1 * yc m1) \<le> 0" by (simp add: ml_def)
    then have "xc m1 * xc m1 + yc m1 * yc m1 \<le> 0" by (simp only: real_sqrt_le_0_iff)
    with False show ?thesis by (simp add: m2_def)
  qed
  define f0 where "f0 = \<lparr> xc = xc b * (1 - 0.3) + xc m2 * 0.3,
                           yc = yc b * (1 - 0.3) + yc m2 * 0.3 \<rparr>"
  define fl where "fl = sqrt (xc f0 * xc f0 + yc f0 * yc f0)"
  have flpos: "0 < fl"
    using blend_nonzero [OF bu m2] by (simp add: fl_def f0_def)
  have nle: "\<not> getDistance sim \<le> successThreshold sim" using far by simp
  have "updateAgent rewardType w h gamma learningRate currentReward (sim, momentum) =
          (updateAgentVelocity
             (xc (if fl > 0 then \<lparr> xc = xc f0 / fl, yc = yc f0 / fl \<rparr> else f0) *
                min 4 (max 1.5 (getDistance sim * 0.015)))
             (yc (if fl > 0 then \<lparr> xc = xc f0 / fl, yc = yc f0 / fl \<rparr> else f0) *
                min 4 (max 1.5 (getDistance sim * 0.015))) sim, m2)"
    by (simp only: updateAgent_def Let_def prod.case nle if_False
        fl_def f0_def m2_def ml_def m1_def b_def)
  then have vel: "agentVelocity (fst (updateAgent rewardType w h gamma learningRate currentReward
                 (sim, momentum))) =
               \<lparr> xc = xc f0 / fl * min 4 (max 1.5 (getDistance sim * 0.015)),
                 yc = yc f0 / fl * min 4 (max 1.5 (getDistance sim * 0.015)) \<rparr>"
    using flpos by (simp add: updateAgentVelocity_def)
  have "(xc f0 / fl) * (xc f0 / fl) + (yc f0 / fl) * (yc f0 / fl) = 1"
    using flpos unfolding fl_def by (rule normalize_unit)
  with vel show ?thesis by blast
qed

lemma scaled_unit_length:
  fixes fx fy c :: real
  assumes "fx * fx + fy * fy = 1" and "0 \<le> c"
  shows "sqrt ((fx * c)\<^sup>2 + (fy * c)\<^sup>2) = c"
proof -
  have "(fx * c)\<^sup>2 + (fy * c)\<^sup>2 = (fx * fx + fy * fy) * c\<^sup>2"
    by (simp add: power2_eq_square algebra_simps)
  also have "\<dots> = c\<^sup>2" using assms(1) by simp
  finally show ?thesis using assms(2) by simp
qed

lemma sqrt_39204: "sqrt 39204 = 198"
  by (rule real_sqrt_unique) simp_all

text \<open>
  C5. With a non-negative \<open>successThreshold\<close> (the constructor sets \<open>35\<close> and nothing
  changes it), a policy call at a distance above the threshold stores a velocity whose
  length is \<open>min 4 (max 1.5 (distance * 0.015))\<close>, hence between \<open>1.5\<close> and \<open>4\<close>; a
  call at a distance within the threshold stores the zero velocity.
\<close>

theorem policy_speed_clamped:
  assumes "0 \<le> successThreshold sim"
  shows "(successThreshold sim < getDistance sim \<longrightarrow>
           sqrt ((xc (agentVelocity (fst (updateAgent rewardType w h gamma learningRate
                   currentReward (sim, momentum)))))\<^sup>2 +
                 (yc (agentVelocity (fst (updateAgent rewardType w h gamma learningRate
                   currentReward (sim, momentum)))))\<^sup>2) =
             min 4 (max 1.5 (getDistance sim * 0.015))
           \<and> 1.5 \<le> min 4 (max 1.5 (getDistance sim * 0.015))
           \<and> min 4 (max 1.5 (getDistance sim * 0.015)) \<le> 4)
       \<and> (getDistance sim \<le> successThreshold sim \<longrightarrow>
           agentVelocity (fst (updateAgent rewardType w h gamma learningRate
             currentReward (sim, momentum))) = \<lparr> xc = 0, yc = 0 \<rparr>)"
proof -
  have stop: "agentVelocity (fst (updateAgent rewardType w h gamma learningRate
             currentReward (sim, momentum))) = \<lparr> xc = 0, yc = 0 \<rparr>"
    if "getDistance sim \<le> successThreshold sim"
    using that by (simp add: updateAgent_def updateAgentVelocity_def Let_def)
  have move: "sqrt ((xc (agentVelocity (fst (updateAgent rewardType w h gamma learningRate
                   currentReward (sim, momentum)))))\<^sup>2 +
                 (yc (agentVelocity (fst (updateAgent rewardType w h gamma learningRate
                   currentReward (sim, momentum)))))\<^sup>2) =
             min 4 (max 1.5 (getDistance sim * 0.015))"
    if far: "successThreshold sim < getDistance sim"
  proof -
    obtain fx fy where u: "fx * fx + fy * fy = 1"
      and v: "agentVelocity (fst (updateAgent rewardType w h gamma learningRate currentReward
                 (sim, momentum))) =
               \<lparr> xc = fx * min 4 (max 1.5 (getDistance sim * 0.015)),
                 yc = fy * min 4 (max 1.5 (getDistance sim * 0.015)) \<rparr>"
      using updateAgent_moving [OF far assms] by blast
    have "0 \<le> min 4 (max 1.5 (getDistance sim * 0.015))" by simp
    from scaled_unit_length [OF u this] show ?thesis
      by (simp only: v vec2.simps)
  qed
  have bounds: "1.5 \<le> min 4 (max 1.5 (getDistance sim * 0.015))
           \<and> min 4 (max 1.5 (getDistance sim * 0.015)) \<le> 4"
    by simp
  show ?thesis using stop move bounds by blast
qed

theorem policy_speed_clamped_witness:
  "0 \<le> successThreshold (agentAt 100 150)
   \<and> successThreshold (agentAt 100 150) < getDistance (agentAt 100 150)
   \<and> sqrt ((xc (agentVelocity (fst (updateAgent ''semantic'' 400 300 0.9 0.1
                (Num 0) (agentAt 100 150, \<lparr> xc = 0, yc = 0 \<rparr>)))))\<^sup>2 +
            (yc (agentVelocity (fst (updateAgent ''semantic'' 400 300 0.9 0.1
                (Num 0) (agentAt 100 150, \<lparr> xc = 0, yc = 0 \<rparr>)))))\<^sup>2) = 3
   \<and> getDistance (agentAt 280 150) \<le> successThreshold (agentAt 280 150)
   \<and> agentVelocity (fst (updateAgent ''semantic'' 400 300 0.9 0.1
                (Num 0) (agentAt 280 150, \<lparr> xc = 0, yc = 0 \<rparr>))) = \<lparr> xc = 0, yc = 0 \<rparr>"
proof -
  have t1: "0 \<le> successThreshold (agentAt 100 150)"
    by (simp add: threshold_agentAt)
  have t2: "0 \<le> successThreshold (agentAt 280 150)"
    by (simp add: threshold_agentAt)
  show ?thesis
    using policy_speed_clamped [OF t1, of "''semantic''" 400 300 "0.9" "0.1" "Num 0" "\<lparr> xc = 0, yc = 0 \<rparr>"]
      policy_speed_clamped [OF t2, of "''semantic''" 400 300 "0.9" "0.1" "Num 0" "\<lparr> xc = 0, yc = 0 \<rparr>"]
    by (simp add: threshold_agentAt getDistance_agentAt)
qed

lemma sampleStep_unknown:
  assumes "rewardType \<noteq> ''sparse''" "rewardType \<noteq> ''shaping''"
    "rewardType \<noteq> ''prm''" "rewardType \<noteq> ''semantic''"
  shows "sampleStep rewardType w h gamma learningRate sim sample (b, Num 0) = (b, Num 0)"
  using assms by (cases sample) (simp add: sampleStep_def Let_def)

lemma fold_fixed:
  assumes "\<And>x. f x acc = acc"
  shows "fold f xs acc = acc"
  by (induction xs) (simp_all add: assms)

lemma chooseDirection_unknown:
  assumes "rewardType \<noteq> ''sparse''" "rewardType \<noteq> ''shaping''"
    "rewardType \<noteq> ''prm''" "rewardType \<noteq> ''semantic''"
    and pos: "0 < getDistance sim"
  shows "chooseDirection rewardType w h gamma learningRate (Num 0) sim =
     \<lparr> xc = (xc (getGoalPosition sim) - xc (getAgentPosition sim)) / getDistance sim,
       yc = (yc (getGoalPosition sim) - yc (getAgentPosition sim)) / getDistance sim \<rparr>"
proof -
  have f: "fold (sampleStep rewardType w h gamma learningRate sim) samples
             (\<lparr> xc = 0, yc = 0 \<rparr>, Num 0) = (\<lparr> xc = 0, yc = 0 \<rparr>, Num 0)"
    by (rule fold_fixed) (rule sampleStep_unknown [OF assms(1-4)])
  have d: "sqrt ((xc (getGoalPosition sim) - xc (getAgentPosition sim)) *
                 (xc (getGoalPosition sim) - xc (getAgentPosition sim)) +
                 (yc (getGoalPosition sim) - yc (getAgentPosition sim)) *
                 (yc (getGoalPosition sim) - yc (getAgentPosition sim))) = getDistance sim"
    by (simp only: fallback_length getDistance_distance)
  have z: "\<not> 0 < sqrt (xc \<lparr> xc = 0, yc = 0 \<rparr> * xc \<lparr> xc = 0, yc = 0 \<rparr> +
                         yc \<lparr> xc = 0, yc = 0 \<rparr> * yc \<lparr> xc = 0, yc = 0 \<rparr>)"
    by simp
  show ?thesis
    by (simp only: chooseDirection_def Let_def f fst_conv z if_False d pos if_True)
qed

text \<open>
  C8. For a regime string other than \<open>'sparse'\<close>, \<open>'shaping'\<close>, \<open>'prm'\<close> and
  \<open>'semantic'\<close>, \<open>getReward\<close> returns \<open>0\<close> (the model has no failing branch, as
  the source has none), no sample beats that reward, so the policy takes the unit
  vector from the agent to the goal as its direction, and the velocity it stores is not
  zero.
\<close>

theorem unknown_regime_fallback:
  assumes "rewardType \<notin> {''sparse'', ''shaping'', ''prm'', ''semantic''}"
    and "0 \<le> successThreshold sim"
    and "successThreshold sim < getDistance sim"
  shows "snd (getReward rewardType gamma learningRate w h sim) = Num 0
     \<and> chooseDirection rewardType w h gamma learningRate
         (snd (getReward rewardType gamma learningRate w h sim)) sim =
         \<lparr> xc = (xc (getGoalPosition sim) - xc (getAgentPosition sim)) / getDistance sim,
           yc = (yc (getGoalPosition sim) - yc (getAgentPosition sim)) / getDistance sim \<rparr>
     \<and> agentVelocity (fst (updateAgent rewardType w h gamma learningRate
         (snd (getReward rewardType gamma learningRate w h sim)) (sim, momentum))) \<noteq>
         \<lparr> xc = 0, yc = 0 \<rparr>"
proof -
  from assms(1) have ne: "rewardType \<noteq> ''sparse''" "rewardType \<noteq> ''shaping''"
    "rewardType \<noteq> ''prm''" "rewardType \<noteq> ''semantic''"
    by simp_all
  have zero: "snd (getReward rewardType gamma learningRate w h sim) = Num 0"
    using ne by (simp add: getReward_def Let_def)
  have pos: "0 < getDistance sim" using assms(2,3) by simp
  have dir: "chooseDirection rewardType w h gamma learningRate (Num 0) sim =
         \<lparr> xc = (xc (getGoalPosition sim) - xc (getAgentPosition sim)) / getDistance sim,
           yc = (yc (getGoalPosition sim) - yc (getAgentPosition sim)) / getDistance sim \<rparr>"
    by (rule chooseDirection_unknown [OF ne pos])
  obtain fx fy where u: "fx * fx + fy * fy = 1"
    and v: "agentVelocity (fst (updateAgent rewardType w h gamma learningRate (Num 0)
                 (sim, momentum))) =
               \<lparr> xc = fx * min 4 (max 1.5 (getDistance sim * 0.015)),
                 yc = fy * min 4 (max 1.5 (getDistance sim * 0.015)) \<rparr>"
    using updateAgent_moving [OF assms(3) assms(2)] by blast
  have sp: "0 < min 4 (max 1.5 (getDistance sim * 0.015))" by simp
  have "fx \<noteq> 0 \<or> fy \<noteq> 0" using u by auto
  with sp have "fx * min 4 (max 1.5 (getDistance sim * 0.015)) \<noteq> 0
      \<or> fy * min 4 (max 1.5 (getDistance sim * 0.015)) \<noteq> 0"
    by auto
  then have mv: "agentVelocity (fst (updateAgent rewardType w h gamma learningRate (Num 0)
                 (sim, momentum))) \<noteq> \<lparr> xc = 0, yc = 0 \<rparr>"
    unfolding v by auto
  show ?thesis using zero dir mv by simp
qed

theorem unknown_regime_fallback_witness:
  "''bogus'' \<notin> {''sparse'', ''shaping'', ''prm'', ''semantic''}
   \<and> 0 \<le> successThreshold (agentAt 100 150)
   \<and> successThreshold (agentAt 100 150) < getDistance (agentAt 100 150)
   \<and> snd (getReward ''bogus'' 0.9 0.1 400 300 (agentAt 100 150)) = Num 0
   \<and> chooseDirection ''bogus'' 400 300 0.9 0.1
         (snd (getReward ''bogus'' 0.9 0.1 400 300 (agentAt 100 150))) (agentAt 100 150) =
       \<lparr> xc = 1, yc = 0 \<rparr>"
proof -
  have a1: "''bogus'' \<notin> {''sparse'', ''shaping'', ''prm'', ''semantic''}" by simp
  have a2: "0 \<le> successThreshold (agentAt 100 150)" by (simp add: threshold_agentAt)
  have a3: "successThreshold (agentAt 100 150) < getDistance (agentAt 100 150)"
    by (simp add: threshold_agentAt getDistance_agentAt)
  have g: "getGoalPosition (agentAt 100 150) = \<lparr> xc = 300, yc = 150 \<rparr>"
    "getAgentPosition (agentAt 100 150) = \<lparr> xc = 100, yc = 150 \<rparr>"
    by (simp_all add: getGoalPosition_def getAgentPosition_def agentAt_def newSimulationEngine_def)
  show ?thesis
    using a1 a2 a3 unknown_regime_fallback [OF a1 a2 a3, of "0.9" "0.1" 400 300 "\<lparr> xc = 0, yc = 0 \<rparr>"]
    by (auto simp: g getDistance_agentAt)
qed

section \<open>The step\<close>

lemma getReward_state:
  "fst (getReward ty gamma learningRate w h s) =
     s \<lparr> previousDistance := Some (getDistance s),
         initialDistance := (case initialDistance s of None \<Rightarrow> Some (getDistance s) | Some i \<Rightarrow> Some i) \<rparr>"
  by (cases "initialDistance s") (simp_all add: getReward_def Let_def)

lemma getDistance_fields:
  "agent s' = agent s \<Longrightarrow> goal s' = goal s \<Longrightarrow> getDistance s' = getDistance s"
  by (simp add: getDistance_def getAgentPosition_def getGoalPosition_def)

lemma getDistance_getReward [simp]:
  "getDistance (fst (getReward ty gamma learningRate w h s)) = getDistance s"
  by (rule getDistance_fields) (simp_all add: getReward_state)

lemma step_running:
  assumes "\<not> getDistance s < successThreshold s"
  shows "step engineUpdate now rewardType gamma learningRate w h s =
     (let moved = engineUpdate ((agent s) \<lparr> velocity := agentVelocity s \<rparr>);
          hist = positionHistory s @
                   [\<lparr> xc = xc (position moved), yc = yc (position moved), time = now \<rparr>]
      in ((fst (getReward rewardType gamma learningRate w h s))
            \<lparr> agent := moved,
              positionHistory := (if length hist > maxHistoryLength s then tl hist else hist) \<rparr>,
          \<lparr> reward = snd (getReward rewardType gamma learningRate w h s), isDone = False \<rparr>))"
proof -
  obtain s1 rew where g: "getReward rewardType gamma learningRate w h s = (s1, rew)"
    by (cases "getReward rewardType gamma learningRate w h s")
  have s1: "s1 = s \<lparr> previousDistance := Some (getDistance s),
         initialDistance := (case initialDistance s of None \<Rightarrow> Some (getDistance s) | Some i \<Rightarrow> Some i) \<rparr>"
    using getReward_state [of rewardType gamma learningRate w h s] by (simp add: g)
  have d: "getDistance s1 = getDistance s"
    using getDistance_getReward [of rewardType gamma learningRate w h s] by (simp add: g)
  have ns: "\<not> isSuccess s1"
    using assms by (simp add: isSuccess_def d) (simp add: s1)
  show ?thesis
    using ns by (simp add: step_def g Let_def getAgentPosition_def) (simp add: s1)
qed

text \<open>
  C4, as the code has it. In a step that is not a success, the reward returned is the
  one \<open>getReward\<close> computes on the state before the move; the agent's body is the
  physics update of the body with \<open>agentVelocity\<close> applied; the position after that
  update is appended to \<open>positionHistory\<close>, whose oldest entry is dropped when the
  length exceeds \<open>maxHistoryLength\<close>; and \<open>previousDistance\<close> holds the distance before
  the move, written by \<open>getReward\<close> at the start of the step and not written again.
\<close>

theorem step_order_running:
  assumes "\<not> getDistance s < successThreshold s"
  shows "reward (snd (step engineUpdate now rewardType gamma learningRate w h s)) =
           snd (getReward rewardType gamma learningRate w h s)
     \<and> \<not> isDone (snd (step engineUpdate now rewardType gamma learningRate w h s))
     \<and> agent (fst (step engineUpdate now rewardType gamma learningRate w h s)) =
           engineUpdate ((agent s) \<lparr> velocity := agentVelocity s \<rparr>)
     \<and> positionHistory (fst (step engineUpdate now rewardType gamma learningRate w h s)) =
           (let p = position (engineUpdate ((agent s) \<lparr> velocity := agentVelocity s \<rparr>));
                hist = positionHistory s @ [\<lparr> xc = xc p, yc = yc p, time = now \<rparr>]
            in if length hist > maxHistoryLength s then tl hist else hist)
     \<and> previousDistance (fst (step engineUpdate now rewardType gamma learningRate w h s)) =
           Some (getDistance s)"
  by (simp add: step_running [OF assms] Let_def getReward_state)

lemma getDistance_moving_example:
  "getDistance (updateAgentVelocity 2 0 (agentAt 100 150)) = 200"
  by (simp add: getDistance_fields [of _ "agentAt 100 150"] updateAgentVelocity_def
      getDistance_agentAt)

theorem step_order_running_witness:
  "\<not> getDistance (updateAgentVelocity 2 0 (agentAt 100 150))
       < successThreshold (updateAgentVelocity 2 0 (agentAt 100 150))
   \<and> reward (snd (step kinematicUpdate 0 ''semantic'' 0.9 0.1 400 300
         (updateAgentVelocity 2 0 (agentAt 100 150)))) = Num (exp (- 2))
   \<and> \<not> isDone (snd (step kinematicUpdate 0 ''semantic'' 0.9 0.1 400 300
         (updateAgentVelocity 2 0 (agentAt 100 150))))
   \<and> agent (fst (step kinematicUpdate 0 ''semantic'' 0.9 0.1 400 300
         (updateAgentVelocity 2 0 (agentAt 100 150)))) =
       \<lparr> position = \<lparr> xc = 102, yc = 150 \<rparr>, velocity = \<lparr> xc = 2, yc = 0 \<rparr> \<rparr>
   \<and> positionHistory (fst (step kinematicUpdate 0 ''semantic'' 0.9 0.1 400 300
         (updateAgentVelocity 2 0 (agentAt 100 150)))) = [\<lparr> xc = 102, yc = 150, time = 0 \<rparr>]
   \<and> previousDistance (fst (step kinematicUpdate 0 ''semantic'' 0.9 0.1 400 300
         (updateAgentVelocity 2 0 (agentAt 100 150)))) = Some 200"
proof -
  have run: "\<not> getDistance (updateAgentVelocity 2 0 (agentAt 100 150))
       < successThreshold (updateAgentVelocity 2 0 (agentAt 100 150))"
    by (simp add: getDistance_moving_example) (simp add: updateAgentVelocity_def threshold_agentAt)
  have rew: "snd (getReward ''semantic'' 0.9 0.1 400 300 (updateAgentVelocity 2 0 (agentAt 100 150))) =
      Num (exp (- 2))"
    by (simp add: getReward_def Let_def getDistance_moving_example)
  show ?thesis
    using run step_order_running [OF run, of kinematicUpdate 0 "''semantic''" "0.9" "0.1" 400 300]
    by (simp add: rew getDistance_moving_example)
      (simp add: updateAgentVelocity_def agentAt_def newSimulationEngine_def kinematicUpdate_def)
qed

text \<open>
  After a step from distance \<open>200\<close> with velocity \<open>(2, 0)\<close> the agent is at distance
  \<open>198\<close>, and \<open>previousDistance\<close> is \<open>200\<close>: it is not the distance measured after
  the physics update.
\<close>

theorem step_previousDistance_counterexample:
  "previousDistance (fst (step kinematicUpdate 0 ''sparse'' 0.9 0.1 400 300
       (updateAgentVelocity 2 0 (agentAt 100 150)))) = Some 200
   \<and> getDistance (fst (step kinematicUpdate 0 ''sparse'' 0.9 0.1 400 300
       (updateAgentVelocity 2 0 (agentAt 100 150)))) = 198
   \<and> previousDistance (fst (step kinematicUpdate 0 ''sparse'' 0.9 0.1 400 300
       (updateAgentVelocity 2 0 (agentAt 100 150)))) \<noteq>
     Some (getDistance (fst (step kinematicUpdate 0 ''sparse'' 0.9 0.1 400 300
       (updateAgentVelocity 2 0 (agentAt 100 150)))))"
proof -
  have run: "\<not> getDistance (updateAgentVelocity 2 0 (agentAt 100 150))
       < successThreshold (updateAgentVelocity 2 0 (agentAt 100 150))"
    by (simp add: getDistance_moving_example) (simp add: updateAgentVelocity_def threshold_agentAt)
  have prev: "previousDistance (fst (step kinematicUpdate 0 ''sparse'' 0.9 0.1 400 300
       (updateAgentVelocity 2 0 (agentAt 100 150)))) = Some 200"
    by (simp add: step_running [OF run] Let_def getReward_state getDistance_moving_example)
  have post: "getDistance (fst (step kinematicUpdate 0 ''sparse'' 0.9 0.1 400 300
       (updateAgentVelocity 2 0 (agentAt 100 150)))) = 198"
    by (simp add: step_running [OF run] Let_def getReward_state)
      (simp add: getDistance_def getAgentPosition_def getGoalPosition_def Let_def
        updateAgentVelocity_def agentAt_def newSimulationEngine_def kinematicUpdate_def sqrt_39204)
  show ?thesis by (simp add: prev post)
qed

text \<open>
  C9. At a distance equal to \<open>successThreshold\<close> the policy stores the zero velocity and
  the zero momentum (its test is \<open>\<le>\<close>), \<open>isSuccess\<close> is false (its test is \<open><\<close>),
  and \<open>step\<close> returns the regime's reward with \<open>isDone\<close> false. In a whole pass of
  the loop the body handed to the physics update has velocity zero, and the pass is not
  done.
\<close>

theorem boundary_stops_without_success:
  assumes "getDistance s = successThreshold s"
  shows "updateAgent rewardType w h gamma learningRate currentReward (s, momentum) =
           (s \<lparr> agentVelocity := \<lparr> xc = 0, yc = 0 \<rparr> \<rparr>, \<lparr> xc = 0, yc = 0 \<rparr>)
     \<and> \<not> isSuccess s
     \<and> snd (step engineUpdate now rewardType gamma learningRate w h s) =
         \<lparr> reward = snd (getReward rewardType gamma learningRate w h s), isDone = False \<rparr>
     \<and> \<not> isDone (snd (animateTick engineUpdate now rewardType w h gamma learningRate (s, momentum)))
     \<and> agent (fst (fst (animateTick engineUpdate now rewardType w h gamma learningRate (s, momentum)))) =
         engineUpdate ((agent s) \<lparr> velocity := \<lparr> xc = 0, yc = 0 \<rparr> \<rparr>)
     \<and> snd (fst (animateTick engineUpdate now rewardType w h gamma learningRate (s, momentum))) =
         \<lparr> xc = 0, yc = 0 \<rparr>"
proof -
  have stop: "updateAgent rewardType w h gamma learningRate r (t, momentum) =
           (t \<lparr> agentVelocity := \<lparr> xc = 0, yc = 0 \<rparr> \<rparr>, \<lparr> xc = 0, yc = 0 \<rparr>)"
    if "getDistance t = successThreshold t" for t r
    using that by (simp add: updateAgent_def updateAgentVelocity_def Let_def)
  have ns: "\<not> isSuccess s"
    using assms by (simp add: isSuccess_def)
  have run: "\<not> getDistance s < successThreshold s"
    using assms by simp
  have st: "snd (step engineUpdate now rewardType gamma learningRate w h s) =
         \<lparr> reward = snd (getReward rewardType gamma learningRate w h s), isDone = False \<rparr>"
    by (simp add: step_running [OF run] Let_def)
  define s1 where "s1 = fst (getReward rewardType gamma learningRate w h s)"
  define r1 where "r1 = snd (getReward rewardType gamma learningRate w h s)"
  define s2 where "s2 = s1 \<lparr> agentVelocity := \<lparr> xc = 0, yc = 0 \<rparr> \<rparr>"
  have f1: "agent s1 = agent s" "goal s1 = goal s" "successThreshold s1 = successThreshold s"
    by (simp_all add: s1_def getReward_state)
  have d1: "getDistance s1 = successThreshold s1"
    using assms getDistance_fields [OF f1(1,2)] f1(3) by simp
  have f2: "agent s2 = agent s" "goal s2 = goal s" "successThreshold s2 = successThreshold s"
    "agentVelocity s2 = \<lparr> xc = 0, yc = 0 \<rparr>"
    by (simp_all add: s2_def f1)
  have run2: "\<not> getDistance s2 < successThreshold s2"
    using assms getDistance_fields [OF f2(1,2)] f2(3) by simp
  have tick: "animateTick engineUpdate now rewardType w h gamma learningRate (s, momentum) =
      ((fst (step engineUpdate now rewardType gamma learningRate w h s2), \<lparr> xc = 0, yc = 0 \<rparr>),
       snd (step engineUpdate now rewardType gamma learningRate w h s2))"
  proof -
    have g: "getReward rewardType gamma learningRate w h s = (s1, r1)"
      by (simp add: s1_def r1_def)
    have u: "updateAgent rewardType w h gamma learningRate r1 (s1, momentum) =
        (s2, \<lparr> xc = 0, yc = 0 \<rparr>)"
      using stop [OF d1, of r1] by (simp add: s2_def)
    show ?thesis
      by (simp add: animateTick_def g u case_prod_beta)
  qed
  have nd: "\<not> isDone (snd (step engineUpdate now rewardType gamma learningRate w h s2))"
    by (simp add: step_running [OF run2] Let_def)
  have ag: "agent (fst (step engineUpdate now rewardType gamma learningRate w h s2)) =
      engineUpdate ((agent s) \<lparr> velocity := \<lparr> xc = 0, yc = 0 \<rparr> \<rparr>)"
    by (simp add: step_running [OF run2] Let_def f2)
  show ?thesis
    using stop [OF assms, of currentReward] ns st nd ag by (simp add: tick)
qed

theorem boundary_stops_without_success_witness:
  "getDistance (agentAt 265 150) = successThreshold (agentAt 265 150)
   \<and> agentVelocity (fst (updateAgent ''sparse'' 400 300 0.9 0.1 (Num 0)
        (agentAt 265 150, \<lparr> xc = 1, yc = 0 \<rparr>))) = \<lparr> xc = 0, yc = 0 \<rparr>
   \<and> snd (updateAgent ''sparse'' 400 300 0.9 0.1 (Num 0)
        (agentAt 265 150, \<lparr> xc = 1, yc = 0 \<rparr>)) = \<lparr> xc = 0, yc = 0 \<rparr>
   \<and> \<not> isSuccess (agentAt 265 150)
   \<and> snd (step kinematicUpdate 0 ''sparse'' 0.9 0.1 400 300 (agentAt 265 150)) =
       \<lparr> reward = Num 0, isDone = False \<rparr>"
proof -
  have eq: "getDistance (agentAt 265 150) = successThreshold (agentAt 265 150)"
    by (simp add: getDistance_agentAt threshold_agentAt)
  have rew: "snd (getReward ''sparse'' 0.9 0.1 400 300 (agentAt 265 150)) = Num 0"
    by (simp add: getReward_def Let_def getDistance_agentAt) (simp add: threshold_agentAt)
  show ?thesis
    using eq boundary_stops_without_success [OF eq, of "''sparse''" 400 300 "0.9" "0.1" "Num 0"
        "\<lparr> xc = 1, yc = 0 \<rparr>" kinematicUpdate 0]
    by (simp add: rew)
qed

section \<open>The progress model\<close>








text \<open>
  The invariant holds after the constructor and is kept by every operation of the engine
  and by the policy; under it the agent is off the goal whenever \<open>initialDistance\<close> is
  \<open>null\<close>, and \<open>initialDistance\<close> is never \<open>0\<close>.
\<close>

lemma spawn_distance:
  assumes "position (agent s) = \<lparr> xc = width s / 4, yc = height s / 2 \<rparr>"
    and "position (goal s) = \<lparr> xc = width s * 0.75, yc = height s / 2 \<rparr>"
  shows "getDistance s = \<bar>width s\<bar> / 2"
proof -
  have "width s / 4 - width s * 0.75 = - (width s / 2)" by simp
  then have "(width s / 4 - width s * 0.75)\<^sup>2 = (width s / 2)\<^sup>2" by simp
  then have "getDistance s = sqrt ((width s / 2)\<^sup>2)"
    using assms by (simp add: getDistance_def getAgentPosition_def getGoalPosition_def Let_def)
  then show ?thesis by simp
qed

lemma spawnInvariant_new:
  "w \<noteq> 0 \<Longrightarrow> spawnInvariant (newSimulationEngine w h)"
  by (simp add: spawnInvariant_def newSimulationEngine_def)

lemma spawnInvariant_reset:
  "spawnInvariant s \<Longrightarrow> spawnInvariant (reset s)"
  by (simp add: spawnInvariant_def reset_def)

lemma spawnInvariant_updateAgentVelocity:
  "spawnInvariant s \<Longrightarrow> spawnInvariant (updateAgentVelocity vx vy s)"
  by (simp add: spawnInvariant_def updateAgentVelocity_def split: option.splits)

lemma spawnInvariant_getReward:
  assumes "spawnInvariant s"
  shows "spawnInvariant (fst (getReward ty gamma learningRate w h s))"
proof (cases "initialDistance s")
  case None
  with assms have "getDistance s = \<bar>width s\<bar> / 2"
    by (simp add: spawnInvariant_def spawn_distance)
  with None assms show ?thesis
    by (simp add: spawnInvariant_def getReward_state)
next
  case (Some i)
  with assms show ?thesis
    by (simp add: spawnInvariant_def getReward_state)
qed

lemma spawnInvariant_step:
  assumes "spawnInvariant s"
  shows "spawnInvariant (fst (step engineUpdate now ty gamma learningRate w h s))"
proof (cases "getDistance s < successThreshold s")
  case True
  moreover have "successThreshold (fst (getReward ty gamma learningRate w h s)) =
      successThreshold s"
    by (simp add: getReward_state)
  ultimately have "fst (step engineUpdate now ty gamma learningRate w h s) =
      reset ((fst (getReward ty gamma learningRate w h s))
        \<lparr> successCount := successCount (fst (getReward ty gamma learningRate w h s)) + 1 \<rparr>)"
    by (simp add: step_def isSuccess_def case_prod_beta)
  with assms show ?thesis
    by (simp add: spawnInvariant_def reset_def getReward_state)
next
  case False
  have "spawnInvariant (fst (getReward ty gamma learningRate w h s))"
    using assms by (rule spawnInvariant_getReward)
  moreover have "initialDistance (fst (getReward ty gamma learningRate w h s)) \<noteq> None"
    by (simp add: getReward_state split: option.splits)
  ultimately show ?thesis
    by (auto simp: step_running [OF False] Let_def spawnInvariant_def split: option.splits)
qed

lemma agentVelocity_update_self:
  "t \<lparr> agentVelocity := v \<rparr> = t \<lparr> agentVelocity := agentVelocity (t \<lparr> agentVelocity := v \<rparr>) \<rparr>"
  by simp

lemma updateAgent_state:
  "fst (updateAgent rewardType w h gamma learningRate currentReward (sim, momentum)) =
     sim \<lparr> agentVelocity := agentVelocity
       (fst (updateAgent rewardType w h gamma learningRate currentReward (sim, momentum))) \<rparr>"
proof (cases "getDistance sim \<le> successThreshold sim")
  case True
  show ?thesis
    by (simp only: updateAgent_def Let_def prod.case True if_True fst_conv
        updateAgentVelocity_def) (rule agentVelocity_update_self)
next
  case False
  show ?thesis
    by (simp only: updateAgent_def Let_def prod.case False if_False fst_conv
        updateAgentVelocity_def) (rule agentVelocity_update_self)
qed

lemma spawnInvariant_updateAgent:
  assumes "spawnInvariant sim"
  shows "spawnInvariant
    (fst (updateAgent rewardType w h gamma learningRate currentReward (sim, momentum)))"
proof -
  have "spawnInvariant (sim \<lparr> agentVelocity := v \<rparr>)" for v
    using assms by (simp add: spawnInvariant_def split: option.splits)
  then show ?thesis
    by (subst updateAgent_state)
qed

lemma spawnInvariant_animateTick:
  assumes "spawnInvariant sim"
  shows "spawnInvariant
    (fst (fst (animateTick engineUpdate now rewardType w h gamma learningRate (sim, momentum))))"
proof -
  have "fst (fst (animateTick engineUpdate now rewardType w h gamma learningRate (sim, momentum))) =
      fst (step engineUpdate now rewardType gamma learningRate w h
        (fst (updateAgent rewardType w h gamma learningRate
          (snd (getReward rewardType gamma learningRate w h sim))
          (fst (getReward rewardType gamma learningRate w h sim), momentum))))"
    by (simp add: animateTick_def case_prod_beta)
  then show ?thesis
    using assms
    by (simp add: spawnInvariant_step spawnInvariant_updateAgent spawnInvariant_getReward)
qed

lemma spawnInvariant_distances:
  assumes "spawnInvariant s"
  shows "initialDistance s = None \<or> initialDistance s = Some 0 \<Longrightarrow> 0 < getDistance s"
    and "initialDistance s = Some i \<Longrightarrow> 0 \<le> i"
proof -
  show "0 < getDistance s" if "initialDistance s = None \<or> initialDistance s = Some 0"
  proof -
    from that assms have n: "initialDistance s = None"
      by (auto simp: spawnInvariant_def)
    with assms have "getDistance s = \<bar>width s\<bar> / 2"
      by (simp add: spawnInvariant_def spawn_distance)
    moreover from assms have "0 < \<bar>width s\<bar> / 2"
      by (simp add: spawnInvariant_def)
    ultimately show ?thesis by (simp only:)
  qed
  show "0 \<le> i" if "initialDistance s = Some i"
  proof -
    from that assms have "i = \<bar>width s\<bar> / 2" by (simp add: spawnInvariant_def)
    then show ?thesis by simp
  qed
qed



text \<open>
  The condition on the engine's state is needed. The engine made for a canvas of width
  \<open>0\<close> has the agent on the goal and \<open>initialDistance\<close> \<open>null\<close>; its \<open>'prm'\<close> case
  sets \<open>initialDistance\<close> to \<open>0\<close> and divides \<open>0\<close> by \<open>0\<close>, so the reward is
  \<open>NaN\<close>, where \<open>calculatePRMReward\<close> on the same positions returns \<open>0\<close>.
\<close>

lemma getReward_prm_at_goal:
  "initialDistance (newSimulationEngine 0 300) = None
   \<and> getDistance (newSimulationEngine 0 300) = 0
   \<and> snd (getReward ''prm'' 0.9 0.1 0 300 (newSimulationEngine 0 300)) = NaN
   \<and> calculatePRMReward (getAgentPosition (newSimulationEngine 0 300))
        (getGoalPosition (newSimulationEngine 0 300)) None 0.1 = 0"
  by (simp add: getReward_def getDistance_def getAgentPosition_def getGoalPosition_def
      newSimulationEngine_def calculatePRMReward_def js_div_def Let_def)

end
